theory Spec2Isabelle
  imports Complex_Main "HOL-Library.Char_ord" "HOL-Library.List_Lexorder"
begin

section \<open>Python values and strings\<close>

text \<open>
  The program is \<^verbatim>\<open>src/app.py\<close>: a dashboard and a webhook that sign requests to an
  exchange, cache the list of open positions and toggle auto-add-margin.

  A Python \<^verbatim>\<open>str\<close> is modelled as a \<open>string\<close>, the list of the bytes of its UTF-8
  encoding, so \<^verbatim>\<open>s.encode()\<close> is the identity. The case conversions below act on the
  ASCII letters; text outside ASCII is outside the model. The values of a parsed JSON
  document are the Python values \<open>pyval\<close>; a JSON number is an integer here (a float
  would need IEEE arithmetic, which nothing below depends on). A \<^verbatim>\<open>dict\<close> is the
  list of its items in insertion order; a well-formed dict has distinct keys.
\<close>

datatype pyval =
    PNone
  | PBool bool
  | PInt int
  | PStr string
  | PList "pyval list"
  | PDict "(string \<times> pyval) list"

type_synonym pydict = "(string \<times> pyval) list"

datatype py_error =
    KeyError string
  | TypeError
  | AttributeError
  | RuntimeError string
  | HTTPError nat
  | RequestException
  | JSONDecodeError

text \<open>\<^verbatim>\<open>sep.join(xs)\<close>\<close>

fun join :: "string \<Rightarrow> string list \<Rightarrow> string" where
  "join sep [] = []"
| "join sep [x] = x"
| "join sep (x # y # ys) = x @ sep @ join sep (y # ys)"

text \<open>\<^verbatim>\<open>str(n)\<close> for an integer: decimal digits, a minus sign for a negative number.\<close>

definition digit_char :: "nat \<Rightarrow> char" where
  "digit_char d = ''0123456789'' ! d"

fun show_nat :: "nat \<Rightarrow> string" where
  "show_nat n = (if n < 10 then [digit_char n] else show_nat (n div 10) @ [digit_char (n mod 10)])"

definition show_int :: "int \<Rightarrow> string" where
  "show_int i = (if i < 0 then CHR ''-'' # show_nat (nat (- i)) else show_nat (nat i))"

text \<open>
  \<^verbatim>\<open>s.upper()\<close>, \<^verbatim>\<open>s.lower()\<close> and \<^verbatim>\<open>s.capitalize()\<close>. They are Python's on the strings
  for which \<^verbatim>\<open>s.isascii()\<close> holds: the 26 letters change case, the first character of
  \<open>capitalize\<close> goes to upper case and the rest to lower case. On other text Python maps
  case by the Unicode tables, which the model does not have: there it leaves the bytes as
  they are, and a property that depends on these bytes is stated for ASCII strings.
\<close>

definition isascii :: "string \<Rightarrow> bool" where
  "isascii s = list_all (\<lambda>c. (of_char c :: nat) < 128) s"

definition ascii_lowercase :: string where
  "ascii_lowercase = ''abcdefghijklmnopqrstuvwxyz''"

definition ascii_uppercase :: string where
  "ascii_uppercase = ''ABCDEFGHIJKLMNOPQRSTUVWXYZ''"

definition upper_char :: "char \<Rightarrow> char" where
  "upper_char c = (case map_of (zip ascii_lowercase ascii_uppercase) c of Some u \<Rightarrow> u | None \<Rightarrow> c)"

definition lower_char :: "char \<Rightarrow> char" where
  "lower_char c = (case map_of (zip ascii_uppercase ascii_lowercase) c of Some l \<Rightarrow> l | None \<Rightarrow> c)"

definition upper :: "string \<Rightarrow> string" where
  "upper s = map upper_char s"

definition lower :: "string \<Rightarrow> string" where
  "lower s = map lower_char s"

definition capitalize :: "string \<Rightarrow> string" where
  "capitalize s = (case s of [] \<Rightarrow> [] | c # cs \<Rightarrow> upper_char c # map lower_char cs)"

text \<open>
  \<^verbatim>\<open>s.replace(old, new)\<close>: every occurrence of \<open>old\<close>, found from the left and not
  overlapping, is replaced; with an empty \<open>old\<close> Python puts \<open>new\<close> before every
  character and at the end.
\<close>

function replace_from :: "string \<Rightarrow> string \<Rightarrow> string \<Rightarrow> string" where
  "replace_from old new [] = []"
| "replace_from old new (c # cs) =
     (if old \<noteq> [] \<and> take (length old) (c # cs) = old
      then new @ replace_from old new (drop (length old) (c # cs))
      else c # replace_from old new cs)"
  by pat_completeness auto
termination
  by (relation "measure (\<lambda>(old, new, s). length s)") auto

definition replace :: "string \<Rightarrow> string \<Rightarrow> string \<Rightarrow> string" where
  "replace s old new =
     (if old = [] then new @ concat (map (\<lambda>c. c # new) s) else replace_from old new s)"

text \<open>
  \<^verbatim>\<open>repr(s)\<close> of a string: single quotes, unless the string has a single quote and no
  double quote; the quote and the backslash are escaped, tab, newline and return are
  written \<^verbatim>\<open>\t\<close>, \<^verbatim>\<open>\n\<close>, \<^verbatim>\<open>\r\<close>, the other control characters \<^verbatim>\<open>\xhh\<close>. The
  bytes of text outside ASCII stay as they are, which is Python's \<^verbatim>\<open>repr\<close> for printable
  characters only (it escapes the others, such as U+00A0); \<open>repr_str\<close> is reached for the
  keys named in a \<^verbatim>\<open>KeyError\<close>, which are ASCII, and for strings inside a list or dict
  that an f-string writes.
\<close>

definition hex_digit :: "nat \<Rightarrow> char" where
  "hex_digit d = ''0123456789abcdef'' ! d"

definition hex_byte :: "char \<Rightarrow> string" where
  "hex_byte c = [hex_digit ((of_char c :: nat) div 16), hex_digit ((of_char c :: nat) mod 16)]"

definition repr_char :: "char \<Rightarrow> char \<Rightarrow> string" where
  "repr_char q c =
     (if c = q \<or> c = CHR 0x5C then [CHR 0x5C, c]
      else if c = CHR 0x09 then [CHR 0x5C, CHR ''t'']
      else if c = CHR 0x0A then [CHR 0x5C, CHR ''n'']
      else if c = CHR 0x0D then [CHR 0x5C, CHR ''r'']
      else if (of_char c :: nat) < 32 \<or> c = CHR 0x7F then [CHR 0x5C, CHR ''x''] @ hex_byte c
      else [c])"

definition repr_str :: "string \<Rightarrow> string" where
  "repr_str s =
     (let q = (if CHR 0x27 \<in> set s \<and> CHR 0x22 \<notin> set s then CHR 0x22 else CHR 0x27)
      in q # concat (map (repr_char q) s) @ [q])"

fun py_repr :: "pyval \<Rightarrow> string" where
  "py_repr PNone = ''None''"
| "py_repr (PBool b) = (if b then ''True'' else ''False'')"
| "py_repr (PInt i) = show_int i"
| "py_repr (PStr s) = repr_str s"
| "py_repr (PList xs) = ''['' @ join '', '' (map py_repr xs) @ '']''"
| "py_repr (PDict kvs) =
     ''{'' @ join '', '' (map (\<lambda>kv. repr_str (fst kv) @ '': '' @ py_repr (snd kv)) kvs) @ ''}''"

text \<open>\<^verbatim>\<open>str(v)\<close>, which is what an f-string writes for \<^verbatim>\<open>{v}\<close>.\<close>

fun py_str :: "pyval \<Rightarrow> string" where
  "py_str (PStr s) = s"
| "py_str v = py_repr v"

text \<open>\<^verbatim>\<open>str(e)\<close> of a \<^verbatim>\<open>KeyError\<close> is the \<^verbatim>\<open>repr\<close> of the missing key.\<close>

definition str_KeyError :: "string \<Rightarrow> string" where
  "str_KeyError k = repr_str k"

text \<open>The truth value of a Python value, as tested by \<^verbatim>\<open>if v:\<close>.\<close>

fun truthy :: "pyval \<Rightarrow> bool" where
  "truthy PNone = False"
| "truthy (PBool b) = b"
| "truthy (PInt i) = (i \<noteq> 0)"
| "truthy (PStr s) = (s \<noteq> [])"
| "truthy (PList xs) = (xs \<noteq> [])"
| "truthy (PDict kvs) = (kvs \<noteq> [])"

text \<open>\<^verbatim>\<open>v != n\<close> for an integer \<open>n\<close>: a bool compares as 0 or 1, nothing else equals a number.\<close>

fun ne_int :: "pyval \<Rightarrow> int \<Rightarrow> bool" where
  "ne_int (PInt i) n = (i \<noteq> n)"
| "ne_int (PBool b) n = ((if b then 1 else 0) \<noteq> n)"
| "ne_int v n = True"

text \<open>\<^verbatim>\<open>v[k]\<close> and \<^verbatim>\<open>v.get(k, d)\<close> for a string key \<open>k\<close>.\<close>

fun getitem :: "pyval \<Rightarrow> string \<Rightarrow> py_error + pyval" where
  "getitem (PDict kvs) k = (case map_of kvs k of None \<Rightarrow> Inl (KeyError k) | Some v \<Rightarrow> Inr v)"
| "getitem v k = Inl TypeError"

fun get_default :: "pyval \<Rightarrow> string \<Rightarrow> pyval \<Rightarrow> py_error + pyval" where
  "get_default (PDict kvs) k d = (case map_of kvs k of None \<Rightarrow> Inr d | Some v \<Rightarrow> Inr v)"
| "get_default v k d = Inl AttributeError"

section \<open>Signature helpers\<close>

text \<open>
  \<^verbatim>\<open>def _build_param_string(p):
      return "&".join(f"{k}={p[k]}" for k in sorted(p)) if p else ""\<close>
  \<open>sorted(p)\<close> is the sorted list of the keys; \<open>p[k]\<close> is read for keys of \<open>p\<close> only,
  so it never raises (lemma \<open>lookup_sorted_key\<close> below).
\<close>

definition build_param_string :: "pydict \<Rightarrow> string" where
  "build_param_string p =
     (if p \<noteq> []
      then join ''&'' (map (\<lambda>k. k @ ''='' @ py_str (the (map_of p k))) (sort (map fst p)))
      else [])"

text \<open>
  \<^verbatim>\<open>def generate_signature(secret, ts, api_key, recv_window, params, body_str):
      pre = f"{ts}{api_key}{recv_window}{_build_param_string(params)}{body_str}"
      return hmac.new(secret.encode(), pre.encode(), hashlib.sha256).hexdigest()\<close>
  The digest is the library's: \<open>hmac_sha256 key msg\<close>, a parameter, gives its bytes.
  \<open>hexdigest\<close> writes each byte as two lowercase hexadecimal digits.
\<close>

definition hexdigest :: "string \<Rightarrow> string" where
  "hexdigest bytes = concat (map hex_byte bytes)"

definition generate_signature ::
  "(string \<Rightarrow> string \<Rightarrow> string) \<Rightarrow> string \<Rightarrow> string \<Rightarrow> string \<Rightarrow> int \<Rightarrow> pydict \<Rightarrow> string \<Rightarrow> string" where
  "generate_signature hmac_sha256 secret ts api_key recv_window params body_str =
     (let pre = ts @ api_key @ show_int recv_window @ build_param_string params @ body_str
      in hexdigest (hmac_sha256 secret pre))"

section \<open>Configuration\<close>

definition BASE_URL :: string where
  "BASE_URL = ''https://api.bybit.com''"

definition POSITIONS_PATH :: string where
  "POSITIONS_PATH = ''/v5/position/list''"

definition AUTO_MARGIN_PATH :: string where
  "AUTO_MARGIN_PATH = ''/v5/position/set-auto-add-margin''"

definition RECV_WINDOW :: int where
  "RECV_WINDOW = 5000"

definition REFRESH_INTERVAL :: int where
  "REFRESH_INTERVAL = 10000"

record config =
  WEBHOOK_SECRET :: "string option"
  API_KEY :: string
  API_SECRET :: string

section \<open>The exchange and the libraries\<close>

text \<open>
  A request as \<^verbatim>\<open>requests.get\<close> and \<^verbatim>\<open>requests.post\<close> receive it, and the part of the
  answer the program reads: the status and the parsed body (\<open>None\<close> when the body is
  not JSON, where \<^verbatim>\<open>r.json()\<close> raises).
\<close>

record http_request =
  verb :: string
  url :: string
  headers :: "(string \<times> string) list"
  params :: pydict
  data :: string

record http_response =
  status_code :: nat
  json_body :: "pyval option"

text \<open>
  A \<^verbatim>\<open>DataFrame\<close> is the list of its rows, the empty one \<^verbatim>\<open>pd.DataFrame()\<close> is \<open>[]\<close>.
  What the program does not define itself is a parameter: the HMAC-SHA256 digest, pandas'
  \<^verbatim>\<open>json_normalize\<close>, the exchange, which answers a request knowing the requests
  sent before it, or fails in transport, and \<open>epoch_ms t\<close>, the integer
  \<^verbatim>\<open>int(t*1000)\<close> that floating-point arithmetic gives for the clock reading \<open>t\<close>.
\<close>

type_synonym frame = "pydict list"

record env =
  hmac_sha256 :: "string \<Rightarrow> string \<Rightarrow> string"
  json_normalize :: "pyval \<Rightarrow> py_error + frame"
  server :: "http_request list \<Rightarrow> http_request \<Rightarrow> py_error + http_response"
  epoch_ms :: "real \<Rightarrow> int"

text \<open>
  The state of the process: the requests sent so far, oldest first, and the entries of the
  cache around \<^verbatim>\<open>fetch_open_positions\<close>, each with the time it was stored at. An entry is
  found by the arguments of the call: key, secret, category, symbol, settle coin.
\<close>

type_synonym cache_key = "string \<times> string \<times> string \<times> string \<times> string"

record world =
  sent :: "http_request list"
  cache :: "cache_key \<rightharpoonup> (frame \<times> real)"

section \<open>Exchange calls\<close>

text \<open>\<^verbatim>\<open>r.raise_for_status()\<close> and \<^verbatim>\<open>r.json()\<close>\<close>

definition raise_for_status :: "http_response \<Rightarrow> py_error + unit" where
  "raise_for_status r =
     (if 400 \<le> status_code r \<and> status_code r < 600 then Inl (HTTPError (status_code r))
      else Inr ())"

definition response_json :: "http_response \<Rightarrow> py_error + pyval" where
  "response_json r = (case json_body r of None \<Rightarrow> Inl JSONDecodeError | Some j \<Rightarrow> Inr j)"

text \<open>
  \<^verbatim>\<open>if j.get("retCode",0)!=0: raise RuntimeError(f"{j['retCode']}: {j['retMsg']}")\<close>,
  the line both calls share.
\<close>

definition check_retCode :: "pyval \<Rightarrow> py_error + unit" where
  "check_retCode j =
     (case get_default j ''retCode'' (PInt 0) of
        Inl e \<Rightarrow> Inl e
      | Inr rc \<Rightarrow>
          if ne_int rc 0 then
            (case getitem j ''retCode'' of
               Inl e \<Rightarrow> Inl e
             | Inr c \<Rightarrow>
                 (case getitem j ''retMsg'' of
                    Inl e \<Rightarrow> Inl e
                  | Inr m \<Rightarrow> Inl (RuntimeError (py_str c @ '': '' @ py_str m))))
          else Inr ())"

definition request_headers :: "string \<Rightarrow> string \<Rightarrow> string \<Rightarrow> (string \<times> string) list" where
  "request_headers key ts sign =
     [(''Content-Type'', ''application/json''),
      (''X-BAPI-API-KEY'', key),
      (''X-BAPI-TIMESTAMP'', ts),
      (''X-BAPI-RECV-WINDOW'', show_int RECV_WINDOW),
      (''X-BAPI-SIGN'', sign)]"

text \<open>\<^verbatim>\<open>str(int(time.time()*1000))\<close>, for the clock reading \<open>now\<close> in seconds.\<close>

definition timestamp :: "env \<Rightarrow> real \<Rightarrow> string" where
  "timestamp E now = show_int (epoch_ms E now)"

text \<open>
  The body of \<^verbatim>\<open>fetch_open_positions\<close>, the function under the cache decorator: what it
  returns or raises after the request, the request it builds, and the whole call.
\<close>

definition positions_of_response :: "env \<Rightarrow> http_response \<Rightarrow> py_error + frame" where
  "positions_of_response E r =
     (case raise_for_status r of
        Inl e \<Rightarrow> Inl e
      | Inr _ \<Rightarrow>
     (case response_json r of
        Inl e \<Rightarrow> Inl e
      | Inr j \<Rightarrow>
     (case check_retCode j of
        Inl e \<Rightarrow> Inl e
      | Inr _ \<Rightarrow>
     (case getitem j ''result'' of
        Inl e \<Rightarrow> Inl e
      | Inr res \<Rightarrow>
     (case getitem res ''list'' of
        Inl e \<Rightarrow> Inl e
      | Inr lst \<Rightarrow> if truthy lst then json_normalize E lst else Inr [])))))"

definition positions_request ::
  "env \<Rightarrow> real \<Rightarrow> string \<Rightarrow> string \<Rightarrow> string \<Rightarrow> string \<Rightarrow> string \<Rightarrow> http_request" where
  "positions_request E now key secret category symbol settle_coin =
     (let ps = [(''category'', PStr category)] @
               (if symbol \<noteq> [] then [(''symbol'', PStr symbol)]
                else [(''settleCoin'', PStr settle_coin)]);
          ts = timestamp E now;
          sign = generate_signature (hmac_sha256 E) secret ts key RECV_WINDOW ps []
      in \<lparr>verb = ''GET'', url = BASE_URL @ POSITIONS_PATH,
          headers = request_headers key ts sign, params = ps, data = []\<rparr>)"

definition fetch_open_positions_wrapped ::
  "env \<Rightarrow> real \<Rightarrow> string \<Rightarrow> string \<Rightarrow> string \<Rightarrow> string \<Rightarrow> string \<Rightarrow> world
     \<Rightarrow> (py_error + frame) \<times> world" where
  "fetch_open_positions_wrapped E now key secret category symbol settle_coin w =
     (let req = positions_request E now key secret category symbol settle_coin;
          w' = w\<lparr>sent := sent w @ [req]\<rparr>
      in case server E (sent w) req of
           Inl e \<Rightarrow> (Inl e, w')
         | Inr r \<Rightarrow> (positions_of_response E r, w'))"

text \<open>
  \<^verbatim>\<open>json.dumps(body, separators=(",",":"), ensure_ascii=False)\<close>: no blanks, the items of
  a dict in insertion order, text as it is but for the quote, the backslash and the
  control characters.
\<close>

definition json_escape_char :: "char \<Rightarrow> string" where
  "json_escape_char c =
     (if c = CHR 0x22 then [CHR 0x5C, CHR 0x22]
      else if c = CHR 0x5C then [CHR 0x5C, CHR 0x5C]
      else if c = CHR 0x08 then [CHR 0x5C, CHR ''b'']
      else if c = CHR 0x0C then [CHR 0x5C, CHR ''f'']
      else if c = CHR 0x0A then [CHR 0x5C, CHR ''n'']
      else if c = CHR 0x0D then [CHR 0x5C, CHR ''r'']
      else if c = CHR 0x09 then [CHR 0x5C, CHR ''t'']
      else if (of_char c :: nat) < 32 then [CHR 0x5C, CHR ''u'', CHR ''0'', CHR ''0''] @ hex_byte c
      else [c])"

definition json_string :: "string \<Rightarrow> string" where
  "json_string s = [CHR 0x22] @ concat (map json_escape_char s) @ [CHR 0x22]"

fun json_dumps :: "pyval \<Rightarrow> string" where
  "json_dumps PNone = ''null''"
| "json_dumps (PBool b) = (if b then ''true'' else ''false'')"
| "json_dumps (PInt i) = show_int i"
| "json_dumps (PStr s) = json_string s"
| "json_dumps (PList xs) = ''['' @ join '','' (map json_dumps xs) @ '']''"
| "json_dumps (PDict kvs) =
     ''{'' @ join '','' (map (\<lambda>kv. json_string (fst kv) @ '':'' @ json_dumps (snd kv)) kvs) @ ''}''"

definition ack_of_response :: "http_response \<Rightarrow> py_error + pyval" where
  "ack_of_response r =
     (case raise_for_status r of
        Inl e \<Rightarrow> Inl e
      | Inr _ \<Rightarrow>
     (case response_json r of
        Inl e \<Rightarrow> Inl e
      | Inr j \<Rightarrow>
     (case check_retCode j of
        Inl e \<Rightarrow> Inl e
      | Inr _ \<Rightarrow> Inr j)))"

definition auto_margin_request ::
  "env \<Rightarrow> real \<Rightarrow> string \<Rightarrow> string \<Rightarrow> pyval \<Rightarrow> pyval \<Rightarrow> pyval \<Rightarrow> bool \<Rightarrow> http_request" where
  "auto_margin_request E now key secret category symbol side enable =
     (let body = PDict [(''category'', category), (''symbol'', symbol), (''side'', side),
                        (''autoAddMargin'', PStr (if enable then ''1'' else ''0''))];
          body_str = json_dumps body;
          ts = timestamp E now;
          sign = generate_signature (hmac_sha256 E) secret ts key RECV_WINDOW [] body_str
      in \<lparr>verb = ''POST'', url = BASE_URL @ AUTO_MARGIN_PATH,
          headers = request_headers key ts sign, params = [], data = body_str\<rparr>)"

definition set_auto_add_margin ::
  "env \<Rightarrow> real \<Rightarrow> string \<Rightarrow> string \<Rightarrow> pyval \<Rightarrow> pyval \<Rightarrow> pyval \<Rightarrow> bool \<Rightarrow> world
     \<Rightarrow> (py_error + pyval) \<times> world" where
  "set_auto_add_margin E now key secret category symbol side enable w =
     (let req = auto_margin_request E now key secret category symbol side enable;
          w' = w\<lparr>sent := sent w @ [req]\<rparr>
      in case server E (sent w) req of
           Inl e \<Rightarrow> (Inl e, w')
         | Inr r \<Rightarrow> (ack_of_response r, w'))"

section \<open>The position cache\<close>

text \<open>
  \<^verbatim>\<open>@st.cache_data(ttl=REFRESH_INTERVAL/1000 - 1)\<close>: the time to live, in seconds.
\<close>

definition TTL :: real where
  "TTL = real_of_int REFRESH_INTERVAL / 1000 - 1"

text \<open>
  The decorator is Streamlit's. It keeps, for the argument values of a call, the value the
  function returned and the time it was stored at; a call whose arguments have an entry
  younger than the time to live returns the stored value and does not run the function;
  any other call runs it, and stores and returns its result. A call that raises stores
  nothing. This is the contract of \<open>get\<close> in section 4.3 of the specification, with the
  key the decorator has: the arguments key, secret, category, symbol and settle coin, as
  passed. An entry found too old is dropped before the function runs.
\<close>

definition fetch_open_positions ::
  "env \<Rightarrow> real \<Rightarrow> string \<Rightarrow> string \<Rightarrow> string \<Rightarrow> string \<Rightarrow> string \<Rightarrow> world
     \<Rightarrow> (py_error + frame) \<times> world" where
  "fetch_open_positions E now key secret category symbol settle_coin w =
     (let k = (key, secret, category, symbol, settle_coin);
          fresh = (case cache w k of
                     None \<Rightarrow> None
                   | Some (v, fetched_at) \<Rightarrow> if now - fetched_at < TTL then Some v else None)
      in case fresh of
           Some v \<Rightarrow> (Inr v, w)
         | None \<Rightarrow>
             (case fetch_open_positions_wrapped E now key secret category symbol settle_coin
                     (w\<lparr>cache := (cache w)(k := None)\<rparr>) of
                (Inl e, w') \<Rightarrow> (Inl e, w')
              | (Inr v, w') \<Rightarrow> (Inr v, w'\<lparr>cache := (cache w')(k \<mapsto> (v, now))\<rparr>)))"

text \<open>
  \<^verbatim>\<open>fetch_open_positions.clear()\<close>, Streamlit's as well, drops every entry of this
  function's cache: \<open>invalidate\<close> without a key in section 4.3.
\<close>

definition fetch_open_positions_clear :: "world \<Rightarrow> world" where
  "fetch_open_positions_clear w = w\<lparr>cache := Map.empty\<rparr>"

section \<open>The webhook\<close>

text \<open>
  Of the inbound request the handler reads the \<^verbatim>\<open>Authorization\<close> header and the body;
  \<open>body = None\<close> is a body that is not JSON, where \<^verbatim>\<open>req.json()\<close> raises.
\<close>

record webhook_request =
  authorization :: "string option"
  body :: "pyval option"

text \<open>
  How a request ends: the returned dict (sent with status 200), an \<^verbatim>\<open>HTTPException\<close>
  with its status and detail, or an exception the handler does not catch, which the
  server answers with status 500. The detail \<^verbatim>\<open>str(e)\<close> of an exception is kept as the
  exception.
\<close>

datatype detail = Detail string | StrOf py_error

datatype http_result =
    Returned pyval
  | HTTPException nat detail
  | Unhandled py_error

text \<open>A method of \<^verbatim>\<open>str\<close> called on a value: any other value has no such attribute.\<close>

fun str_method :: "(string \<Rightarrow> string) \<Rightarrow> pyval \<Rightarrow> py_error + string" where
  "str_method f (PStr s) = Inr (f s)"
| "str_method f v = Inl AttributeError"

text \<open>
  The \<^verbatim>\<open>try\<close> block that reads the fields:
  \<^verbatim>\<open>sym = data["symbol"].upper(); side = data["side"].capitalize();
  act = data["action"].lower(); cat = data["category"]; settle = data.get("settleCoin","")\<close>
\<close>

definition read_fields :: "pyval \<Rightarrow> py_error + (string \<times> string \<times> string \<times> pyval \<times> pyval)" where
  "read_fields d =
     (case getitem d ''symbol'' of Inl e \<Rightarrow> Inl e | Inr v1 \<Rightarrow>
     (case str_method upper v1 of Inl e \<Rightarrow> Inl e | Inr sym' \<Rightarrow>
     (case getitem d ''side'' of Inl e \<Rightarrow> Inl e | Inr v2 \<Rightarrow>
     (case str_method capitalize v2 of Inl e \<Rightarrow> Inl e | Inr side \<Rightarrow>
     (case getitem d ''action'' of Inl e \<Rightarrow> Inl e | Inr v3 \<Rightarrow>
     (case str_method lower v3 of Inl e \<Rightarrow> Inl e | Inr act \<Rightarrow>
     (case getitem d ''category'' of Inl e \<Rightarrow> Inl e | Inr cat \<Rightarrow>
     (case get_default d ''settleCoin'' (PStr []) of Inl e \<Rightarrow> Inl e | Inr settle \<Rightarrow>
        Inr (sym', side, act, cat, settle)))))))))"

text \<open>
  The check at the head of the handler:
  \<^verbatim>\<open>if WEBHOOK_SECRET:
      auth = req.headers.get("Authorization","")
      if auth.replace("Bearer ","") != WEBHOOK_SECRET: raise HTTPException(401, ...)\<close>
  \<^verbatim>\<open>if WEBHOOK_SECRET:\<close> holds for a secret that is set and not empty.
\<close>

definition invalid_webhook_secret :: "config \<Rightarrow> webhook_request \<Rightarrow> bool" where
  "invalid_webhook_secret cfg req =
     (case WEBHOOK_SECRET cfg of
        None \<Rightarrow> False
      | Some s \<Rightarrow>
          s \<noteq> [] \<and>
          (let auth = (case authorization req of None \<Rightarrow> [] | Some a \<Rightarrow> a)
           in replace auth ''Bearer '' [] \<noteq> s))"

text \<open>
  The handler. Clearing the cache is inside \<^verbatim>\<open>try: ... except: pass\<close>; the model's
  \<open>clear\<close> does not raise.
\<close>

definition webhook :: "env \<Rightarrow> config \<Rightarrow> real \<Rightarrow> webhook_request \<Rightarrow> world \<Rightarrow> http_result \<times> world" where
  "webhook E cfg now req w =
     (if invalid_webhook_secret cfg req
      then (HTTPException 401 (Detail ''Invalid webhook secret''), w)
      else
           (case body req of
              None \<Rightarrow> (Unhandled JSONDecodeError, w)
            | Some d \<Rightarrow>
                (case read_fields d of
                   Inl (KeyError k) \<Rightarrow> (HTTPException 400 (Detail (''Missing '' @ str_KeyError k)), w)
                 | Inl e \<Rightarrow> (Unhandled e, w)
                 | Inr (sym', side, act, cat, settle) \<Rightarrow>
                     (let enable = (act = ''enable'') in
                      case set_auto_add_margin E now (API_KEY cfg) (API_SECRET cfg)
                             cat (PStr sym') (PStr side) enable w of
                        (Inl e, w') \<Rightarrow> (HTTPException 500 (StrOf e), w')
                      | (Inr res, w') \<Rightarrow>
                          (Returned (PDict [(''status'', PStr ''ok''), (''result'', res)]),
                           fetch_open_positions_clear w')))))"

section \<open>The dashboard's row button\<close>

text \<open>
  One row \<open>pos\<close> of the table, for a click on its button:
  \<^verbatim>\<open>cur = str(pos.get("autoAddMargin","0"))\<close>, then inside \<^verbatim>\<open>try\<close> the call
  \<^verbatim>\<open>set_auto_add_margin(API_KEY, API_SECRET, category, pos["symbol"], pos["side"],
  enable=(cur=="0"))\<close>, \<^verbatim>\<open>fetch_open_positions.clear()\<close> and the rerun (taken to exist in
  the installed Streamlit); an exception is shown with \<^verbatim>\<open>st.error\<close>.
\<close>

datatype click_result = Rerun | ShownError py_error

definition row_button :: "env \<Rightarrow> real \<Rightarrow> string \<Rightarrow> string \<Rightarrow> string \<Rightarrow> pydict \<Rightarrow> world
     \<Rightarrow> click_result \<times> world" where
  "row_button E now key secret category pos w =
     (let cur = py_str (case map_of pos ''autoAddMargin'' of None \<Rightarrow> PStr ''0'' | Some v \<Rightarrow> v) in
      case getitem (PDict pos) ''symbol'' of
        Inl e \<Rightarrow> (ShownError e, w)
      | Inr sym' \<Rightarrow>
      (case getitem (PDict pos) ''side'' of
        Inl e \<Rightarrow> (ShownError e, w)
      | Inr side \<Rightarrow>
      (case set_auto_add_margin E now key secret (PStr category) sym' side (cur = ''0'') w of
         (Inl e, w') \<Rightarrow> (ShownError e, w')
       | (Inr res, w') \<Rightarrow> (Rerun, fetch_open_positions_clear w'))))"

section \<open>The signed string in the words of the specification\<close>

text \<open>
  Section 4.1 of the specification: the query parameters are a map; the sorted query
  string takes its keys in ascending order (strings compare byte by byte, a proper prefix
  first) and joins \<open>k=v\<close> with \<open>&\<close>; the canonical string is timestamp, API key,
  recv-window, sorted query string and body, one after the other.
\<close>

definition sorted_query_string :: "(string \<rightharpoonup> pyval) \<Rightarrow> string" where
  "sorted_query_string m =
     join ''&'' (map (\<lambda>k. k @ ''='' @ py_str (the (m k))) (sorted_list_of_set (dom m)))"

definition canonical_string ::
  "string \<Rightarrow> string \<Rightarrow> int \<Rightarrow> (string \<rightharpoonup> pyval) \<Rightarrow> string \<Rightarrow> string" where
  "canonical_string ts api_key recv_window m body_str =
     ts @ api_key @ show_int recv_window @ sorted_query_string m @ body_str"

section \<open>Notions used to state the properties\<close>

text \<open>
  The fields the webhook's body must have, in the order the handler reads them.
\<close>

definition required_fields :: "string list" where
  "required_fields = [''symbol'', ''side'', ''action'', ''category'']"

text \<open>
  The bearer token of a request, in the words of the specification: what follows the
  scheme \<open>Bearer\<close> and one blank in the \<^verbatim>\<open>Authorization\<close> header; a request without such
  a header has none.
\<close>

definition bearer_token :: "webhook_request \<Rightarrow> string option" where
  "bearer_token req =
     (case authorization req of
        None \<Rightarrow> None
      | Some a \<Rightarrow> if take 7 a = ''Bearer '' then Some (drop 7 a) else None)"

text \<open>
  A key is stale in a state at a time when the cache has no entry for it or the entry's
  time to live has elapsed. A read of the cache performs a fresh fetch when it sends the
  request of \<^verbatim>\<open>fetch_open_positions\<close> to the exchange and returns what that call
  returns.
\<close>

definition stale :: "world \<Rightarrow> real \<Rightarrow> cache_key \<Rightarrow> bool" where
  "stale w now k = (case cache w k of None \<Rightarrow> True | Some (v, t0) \<Rightarrow> \<not> now - t0 < TTL)"

definition fresh_fetch :: "env \<Rightarrow> real \<Rightarrow> cache_key \<Rightarrow> world \<Rightarrow> bool" where
  "fresh_fetch E now k w =
     (case k of (key, secret, category, symbol, settle_coin) \<Rightarrow>
        sent (snd (fetch_open_positions E now key secret category symbol settle_coin w)) =
          sent w @ [positions_request E now key secret category symbol settle_coin]
        \<and> fst (fetch_open_positions E now key secret category symbol settle_coin w) =
            fst (fetch_open_positions_wrapped E now key secret category symbol settle_coin w))"

section \<open>A sample exchange\<close>

text \<open>
  For closed instances: an exchange that answers every request with status 200 and the
  same JSON body, and one that answers with a given status; a digest function returning
  no bytes, \<open>rows_of\<close> standing for \<^verbatim>\<open>json_normalize\<close> on a list of flat records, and
  the exact product for the clock; the state before any request; one open position, as
  a row of the table and as the exchange lists it; a configuration with a given webhook
  secret; the state after a first read of the positions at time 0; a webhook payload.
\<close>

definition rows_of :: "pyval \<Rightarrow> py_error + frame" where
  "rows_of v =
     (case v of PList xs \<Rightarrow> Inr (map (\<lambda>x. case x of PDict d \<Rightarrow> d | _ \<Rightarrow> []) xs)
      | _ \<Rightarrow> Inl TypeError)"

definition ok_envelope :: "pyval \<Rightarrow> pyval" where
  "ok_envelope lst =
     PDict [(''retCode'', PInt 0), (''retMsg'', PStr ''OK''), (''result'', PDict [(''list'', lst)])]"

definition exchange_answering :: "pyval \<Rightarrow> env" where
  "exchange_answering j =
     \<lparr>hmac_sha256 = (\<lambda>k m. []), json_normalize = rows_of,
      server = (\<lambda>h rq. Inr \<lparr>status_code = 200, json_body = Some j\<rparr>),
      epoch_ms = (\<lambda>t. \<lfloor>t * 1000\<rfloor>)\<rparr>"

definition exchange_refusing :: "nat \<Rightarrow> pyval \<Rightarrow> env" where
  "exchange_refusing st j =
     \<lparr>hmac_sha256 = (\<lambda>k m. []), json_normalize = rows_of,
      server = (\<lambda>h rq. Inr \<lparr>status_code = st, json_body = Some j\<rparr>),
      epoch_ms = (\<lambda>t. \<lfloor>t * 1000\<rfloor>)\<rparr>"

definition initial_world :: world where
  "initial_world = \<lparr>sent = [], cache = Map.empty\<rparr>"

definition position_row :: pydict where
  "position_row =
     [(''symbol'', PStr ''BTCUSDT''), (''side'', PStr ''Buy''), (''autoAddMargin'', PStr ''0'')]"

definition one_position :: pyval where
  "one_position =
     PList [PDict [(''symbol'', PStr ''BTCUSDT''), (''side'', PStr ''Buy''),
                   (''autoAddMargin'', PStr ''0'')]]"

definition example_exchange :: env where
  "example_exchange = exchange_answering (ok_envelope one_position)"

definition example_config :: "string option \<Rightarrow> config" where
  "example_config secret = \<lparr>WEBHOOK_SECRET = secret, API_KEY = ''k'', API_SECRET = ''s''\<rparr>"

definition first_get_world :: world where
  "first_get_world =
     snd (fetch_open_positions example_exchange 0 ''k'' ''s'' ''linear'' ''BTCUSDT'' ''USDT''
            initial_world)"

definition enable_payload :: pyval where
  "enable_payload =
     PDict [(''symbol'', PStr ''btcusdt''), (''side'', PStr ''buy''), (''action'', PStr ''Enable''),
            (''category'', PStr ''linear'')]"

section \<open>Properties of the signature\<close>

lemma sorted_keys_of_dict:
  assumes "distinct (map fst p)"
  shows "sort (map fst p) = sorted_list_of_set (dom (map_of p))"
  using assms
  by (simp add: dom_map_of_conv_image_fst sorted_list_of_set_sort_remdups distinct_remdups_id
        flip: set_map)

text \<open>The lookup \<^verbatim>\<open>p[k]\<close> inside \<^verbatim>\<open>_build_param_string\<close> never misses.\<close>

lemma lookup_sorted_key: "k \<in> set (sort (map fst p)) \<Longrightarrow> map_of p k \<noteq> None"
  by (simp add: map_of_eq_None_iff)

lemma build_param_string_spec:
  assumes "distinct (map fst p)"
  shows "build_param_string p = sorted_query_string (map_of p)"
proof (cases "p = []")
  case True
  then show ?thesis by (simp add: build_param_string_def sorted_query_string_def)
next
  case False
  then show ?thesis
    using sorted_keys_of_dict [OF assms]
    by (simp add: build_param_string_def sorted_query_string_def)
qed

lemma hex_digit_lowercase: "d < 16 \<Longrightarrow> hex_digit d \<in> set ''0123456789abcdef''"
  unfolding hex_digit_def by (rule nth_mem) simp

lemma two_in_set: "x \<in> A \<Longrightarrow> y \<in> A \<Longrightarrow> set [x, y] \<subseteq> A"
  by simp

lemma hex_byte_lowercase: "set (hex_byte c) \<subseteq> set ''0123456789abcdef''"
proof -
  have "(of_char c :: nat) < 256" by simp
  then have hi: "(of_char c :: nat) div 16 < 16" by (simp add: less_mult_imp_div_less)
  have lo: "(of_char c :: nat) mod 16 < 16" by simp
  show ?thesis
    unfolding hex_byte_def
    by (rule two_in_set) (rule hex_digit_lowercase [OF hi], rule hex_digit_lowercase [OF lo])
qed

lemma hexdigest_lowercase: "set (hexdigest bs) \<subseteq> set ''0123456789abcdef''"
  unfolding hexdigest_def using hex_byte_lowercase by (induction bs) auto

lemma length_hexdigest: "length (hexdigest bs) = 2 * length bs"
  unfolding hexdigest_def by (induction bs) (simp_all add: hex_byte_def)

lemma sort_keys_eq:
  assumes "distinct (map fst p)" "distinct (map fst q)" "set p = set q"
  shows "sort (map fst p) = sort (map fst q)"
proof (rule sorted_distinct_set_unique)
  show "set (sort (map fst p)) = set (sort (map fst q))" using assms(3) by simp
qed (use assms in simp_all)

text \<open>
  C3. For a dict of query parameters (its keys are distinct), \<open>generate_signature\<close>
  returns the hexadecimal text of the HMAC-SHA256 digest, keyed with the secret, of the
  canonical string: timestamp, API key, recv-window, sorted query string and body,
  concatenated in this order with nothing between them. The text has two characters for
  each byte of the digest, all of them digits or lowercase letters a to f.
\<close>

theorem generate_signature_hmac:
  assumes "distinct (map fst ps)"
  shows "generate_signature H secret ts api_key recv_window ps body_str =
           hexdigest (H secret (canonical_string ts api_key recv_window (map_of ps) body_str))
         \<and> set (generate_signature H secret ts api_key recv_window ps body_str)
             \<subseteq> set ''0123456789abcdef''
         \<and> length (generate_signature H secret ts api_key recv_window ps body_str) =
             2 * length (H secret (canonical_string ts api_key recv_window (map_of ps) body_str))"
proof -
  have "generate_signature H secret ts api_key recv_window ps body_str =
           hexdigest (H secret (canonical_string ts api_key recv_window (map_of ps) body_str))"
    by (simp add: generate_signature_def canonical_string_def build_param_string_spec [OF assms])
  then show ?thesis
    using hexdigest_lowercase length_hexdigest by (simp del: set_simps)
qed

theorem generate_signature_hmac_witness:
  "distinct (map fst [(''category'', PStr ''linear''), (''symbol'', PStr ''BTCUSDT'')])
   \<and> generate_signature (\<lambda>k m. m) ''s'' ''17'' ''k'' 5000
       [(''category'', PStr ''linear''), (''symbol'', PStr ''BTCUSDT'')] [] =
     hexdigest ''17k5000category=linear&symbol=BTCUSDT''"
  using generate_signature_hmac
    [of "[(''category'', PStr ''linear''), (''symbol'', PStr ''BTCUSDT'')]"
        "\<lambda>k m. m" "''s''" "''17''" "''k''" 5000 "[]"]
  by (simp add: generate_signature_def build_param_string_def show_int_def digit_char_def)

text \<open>
  C9. Two dicts of query parameters with the same items, inserted in whatever order, give
  the same query string and, all else equal, the same signature: the query string joins
  \<open>k=v\<close> with \<open>&\<close> over the keys in ascending order, and it is empty for the empty dict.
\<close>

theorem build_param_string_insertion_order:
  assumes "distinct (map fst p)" and "distinct (map fst q)" and "set p = set q"
  shows "build_param_string p = build_param_string q
         \<and> generate_signature H secret ts api_key recv_window p body_str =
             generate_signature H secret ts api_key recv_window q body_str
         \<and> build_param_string [] = []
         \<and> sorted (sort (map fst p))
         \<and> build_param_string p =
             join ''&'' (map (\<lambda>k. k @ ''='' @ py_str (the (map_of p k))) (sort (map fst p)))"
proof -
  have keys: "sort (map fst p) = sort (map fst q)"
    using assms by (rule sort_keys_eq)
  have vals: "map_of p = map_of q"
    using assms by (simp add: map_of_inject_set)
  have nil: "p = [] \<longleftrightarrow> q = []"
    using assms(3) by (metis set_empty)
  have eq: "build_param_string p = build_param_string q"
    using keys vals nil by (simp add: build_param_string_def)
  have form: "build_param_string p =
             join ''&'' (map (\<lambda>k. k @ ''='' @ py_str (the (map_of p k))) (sort (map fst p)))"
    by (simp add: build_param_string_def)
  show ?thesis
    using eq form by (simp add: generate_signature_def build_param_string_def)
qed

theorem build_param_string_insertion_order_witness:
  "build_param_string [(''b'', PInt 2), (''a'', PInt 1)] = ''a=1&b=2''
   \<and> build_param_string [(''a'', PInt 1), (''b'', PInt 2)] = ''a=1&b=2''
   \<and> generate_signature (\<lambda>k m. k @ m) ''s'' ''17'' ''key'' 5000
         [(''b'', PInt 2), (''a'', PInt 1)] ''{}'' =
       generate_signature (\<lambda>k m. k @ m) ''s'' ''17'' ''key'' 5000
         [(''a'', PInt 1), (''b'', PInt 2)] ''{}''"
  using build_param_string_insertion_order
    [of "[(''b'', PInt 2), (''a'', PInt 1)]" "[(''a'', PInt 1), (''b'', PInt 2)]"
        "\<lambda>k m. k @ m" "''s''" "''17''" "''key''" 5000 "''{}''"]
  by (simp add: build_param_string_def show_int_def digit_char_def insert_commute)

section \<open>Properties of the exchange calls\<close>

lemma fetch_open_positions_wrapped_reply:
  assumes "server E (sent w) (positions_request E now key secret category symbol settle_coin) = Inr r"
  shows "fst (fetch_open_positions_wrapped E now key secret category symbol settle_coin w) =
           positions_of_response E r"
  using assms by (simp add: fetch_open_positions_wrapped_def Let_def)

lemma positions_of_response_refused:
  assumes "400 \<le> status_code r \<and> status_code r < 600"
  shows "positions_of_response E r = Inl (HTTPError (status_code r))"
  using assms by (simp add: positions_of_response_def raise_for_status_def)

lemma positions_of_response_retCode:
  assumes "\<not> (400 \<le> status_code r \<and> status_code r < 600)"
      and "json_body r = Some (PDict j)"
      and "map_of j ''retCode'' = Some c" and "ne_int c 0"
      and "map_of j ''retMsg'' = Some m"
  shows "positions_of_response E r = Inl (RuntimeError (py_str c @ '': '' @ py_str m))"
  using assms
  by (simp add: positions_of_response_def raise_for_status_def response_json_def check_retCode_def)

lemma positions_of_response_empty:
  assumes "\<not> (400 \<le> status_code r \<and> status_code r < 600)"
      and "json_body r = Some (PDict j)"
      and "map_of j ''retCode'' = None \<or> map_of j ''retCode'' = Some (PInt 0)"
      and "map_of j ''result'' = Some (PDict res)"
      and "map_of res ''list'' = Some (PList [])"
  shows "positions_of_response E r = Inr []"
  using assms
  by (auto simp add: positions_of_response_def raise_for_status_def response_json_def check_retCode_def)

lemma fetch_open_positions_wrapped_sent:
  "sent (snd (fetch_open_positions_wrapped E now key secret category symbol settle_coin w)) =
     sent w @ [positions_request E now key secret category symbol settle_coin]"
  by (simp add: fetch_open_positions_wrapped_def Let_def split: sum.split)

lemma fetch_open_positions_wrapped_cache:
  "cache (snd (fetch_open_positions_wrapped E now key secret category symbol settle_coin w)) = cache w"
  by (simp add: fetch_open_positions_wrapped_def Let_def split: sum.split)

lemma fetch_open_positions_wrapped_fst_cache:
  "fst (fetch_open_positions_wrapped E now key secret category symbol settle_coin (w\<lparr>cache := c\<rparr>)) =
   fst (fetch_open_positions_wrapped E now key secret category symbol settle_coin w)"
  by (simp add: fetch_open_positions_wrapped_def Let_def split: sum.split)

lemma set_auto_add_margin_sent:
  "sent (snd (set_auto_add_margin E now key secret category symbol side enable w)) =
     sent w @ [auto_margin_request E now key secret category symbol side enable]"
  by (simp add: set_auto_add_margin_def Let_def split: sum.split)

lemma set_auto_add_margin_answer:
  assumes "\<And>h rq. server E h rq = Inr r"
  shows "fst (set_auto_add_margin E now key secret category symbol side enable w) = ack_of_response r"
  using assms by (simp add: set_auto_add_margin_def Let_def)

text \<open>
  C5, as stated, fails for some answers of the exchange: with a \<open>retCode\<close> that is not
  zero and no \<open>retMsg\<close> the call raises the \<^verbatim>\<open>KeyError\<close> of the missing key, which carries
  neither the code nor a message; with a status from 400 to 599 \<^verbatim>\<open>raise_for_status\<close> raises
  before the envelope is read.
\<close>

theorem fetch_open_positions_envelope_counterexample:
  "fst (fetch_open_positions_wrapped (exchange_answering (PDict [(''retCode'', PInt 10001)]))
          1 ''k'' ''s'' ''linear'' ''BTCUSDT'' ''USDT'' initial_world) = Inl (KeyError ''retMsg'')
   \<and> fst (fetch_open_positions_wrapped
            (exchange_refusing 500
               (PDict [(''retCode'', PInt 10001), (''retMsg'', PStr ''params error'')]))
          1 ''k'' ''s'' ''linear'' ''BTCUSDT'' ''USDT'' initial_world) = Inl (HTTPError 500)"
  by (simp add: fetch_open_positions_wrapped_def Let_def exchange_answering_def
        exchange_refusing_def positions_of_response_def raise_for_status_def response_json_def
        check_retCode_def)

text \<open>
  C5, amended. Let \<open>r\<close> be the exchange's answer to the position request that the call
  sends. If its status is from 400 to 599, the call fails with the \<^verbatim>\<open>HTTPError\<close> of that
  status. If the status is any other and the body is a JSON object: with a \<open>retCode\<close> that
  is not zero and a \<open>retMsg\<close>, the call fails with a \<^verbatim>\<open>RuntimeError\<close> whose message is the
  code, a colon and a blank, and the exchange's message; with \<open>retCode\<close> zero and an empty
  result list, the call returns the empty frame and no error.
\<close>

theorem fetch_open_positions_envelope:
  assumes "server E (sent w) (positions_request E now key secret category symbol settle_coin) = Inr r"
  shows "(400 \<le> status_code r \<and> status_code r < 600 \<longrightarrow>
            fst (fetch_open_positions_wrapped E now key secret category symbol settle_coin w) =
              Inl (HTTPError (status_code r)))
       \<and> (\<not> (400 \<le> status_code r \<and> status_code r < 600) \<and> json_body r = Some (PDict j) \<and>
          map_of j ''retCode'' = Some c \<and> ne_int c 0 \<and> map_of j ''retMsg'' = Some m \<longrightarrow>
            fst (fetch_open_positions_wrapped E now key secret category symbol settle_coin w) =
              Inl (RuntimeError (py_str c @ '': '' @ py_str m)))
       \<and> (\<not> (400 \<le> status_code r \<and> status_code r < 600) \<and> json_body r = Some (PDict j) \<and>
          map_of j ''retCode'' = Some (PInt 0) \<and> map_of j ''result'' = Some (PDict res) \<and>
          map_of res ''list'' = Some (PList []) \<longrightarrow>
            fst (fetch_open_positions_wrapped E now key secret category symbol settle_coin w) = Inr [])"
  using fetch_open_positions_wrapped_reply [OF assms]
    positions_of_response_refused [of r E]
    positions_of_response_retCode [of r j c m E] positions_of_response_empty [of r j res E]
  by simp

theorem fetch_open_positions_envelope_witness:
  "fst (fetch_open_positions_wrapped
          (exchange_answering (PDict [(''retCode'', PInt 10001), (''retMsg'', PStr ''params error'')]))
          1 ''k'' ''s'' ''linear'' ''BTCUSDT'' ''USDT'' initial_world) =
     Inl (RuntimeError ''10001: params error'')
   \<and> fst (fetch_open_positions_wrapped (exchange_answering (ok_envelope (PList [])))
          1 ''k'' ''s'' ''linear'' ''BTCUSDT'' ''USDT'' initial_world) = Inr []
   \<and> fst (fetch_open_positions_wrapped (exchange_refusing 403 (ok_envelope (PList [])))
          1 ''k'' ''s'' ''linear'' ''BTCUSDT'' ''USDT'' initial_world) = Inl (HTTPError 403)"
proof -
  have a: "fst (fetch_open_positions_wrapped
          (exchange_answering (PDict [(''retCode'', PInt 10001), (''retMsg'', PStr ''params error'')]))
          1 ''k'' ''s'' ''linear'' ''BTCUSDT'' ''USDT'' initial_world) =
     Inl (RuntimeError ''10001: params error'')"
    using fetch_open_positions_envelope
      [where E = "exchange_answering (PDict [(''retCode'', PInt 10001), (''retMsg'', PStr ''params error'')])"
         and w = initial_world
         and r = "\<lparr>status_code = 200,
            json_body = Some (PDict [(''retCode'', PInt 10001), (''retMsg'', PStr ''params error'')])\<rparr>"
         and j = "[(''retCode'', PInt 10001), (''retMsg'', PStr ''params error'')]"
         and c = "PInt 10001" and m = "PStr ''params error''" and now = 1 and key = "''k''"
         and secret = "''s''" and category = "''linear''" and symbol = "''BTCUSDT''"
         and settle_coin = "''USDT''", THEN conjunct2, THEN conjunct1]
    by (simp add: exchange_answering_def show_int_def digit_char_def)
  have b: "fst (fetch_open_positions_wrapped (exchange_answering (ok_envelope (PList [])))
          1 ''k'' ''s'' ''linear'' ''BTCUSDT'' ''USDT'' initial_world) = Inr []"
    using fetch_open_positions_envelope
      [where E = "exchange_answering (ok_envelope (PList []))" and w = initial_world
         and r = "\<lparr>status_code = 200, json_body = Some (ok_envelope (PList []))\<rparr>"
         and j = "[(''retCode'', PInt 0), (''retMsg'', PStr ''OK''),
                   (''result'', PDict [(''list'', PList [])])]"
         and res = "[(''list'', PList [])]" and now = 1 and key = "''k''"
         and secret = "''s''" and category = "''linear''" and symbol = "''BTCUSDT''"
         and settle_coin = "''USDT''", THEN conjunct2, THEN conjunct2]
    by (simp add: exchange_answering_def ok_envelope_def)
  have c: "fst (fetch_open_positions_wrapped (exchange_refusing 403 (ok_envelope (PList [])))
          1 ''k'' ''s'' ''linear'' ''BTCUSDT'' ''USDT'' initial_world) = Inl (HTTPError 403)"
    using fetch_open_positions_envelope
      [where E = "exchange_refusing 403 (ok_envelope (PList []))" and w = initial_world
         and r = "\<lparr>status_code = 403, json_body = Some (ok_envelope (PList []))\<rparr>"
         and now = 1 and key = "''k''"
         and secret = "''s''" and category = "''linear''" and symbol = "''BTCUSDT''"
         and settle_coin = "''USDT''", THEN conjunct1]
    by (simp add: exchange_refusing_def)
  show ?thesis using a b c by blast
qed

section \<open>Properties of the cache\<close>

lemma TTL_value: "TTL = 9"
  by (simp add: TTL_def REFRESH_INTERVAL_def)

lemma fetch_open_positions_hit:
  assumes "cache w (key, secret, category, symbol, settle_coin) = Some (v, t0)" and "now - t0 < TTL"
  shows "fetch_open_positions E now key secret category symbol settle_coin w = (Inr v, w)"
  using assms by (simp add: fetch_open_positions_def)

lemma fetch_open_positions_miss:
  assumes "stale w now (key, secret, category, symbol, settle_coin)"
  shows "fetch_open_positions E now key secret category symbol settle_coin w =
           (case fetch_open_positions_wrapped E now key secret category symbol settle_coin
                   (w\<lparr>cache := (cache w)((key, secret, category, symbol, settle_coin) := None)\<rparr>) of
              (Inl e, w') \<Rightarrow> (Inl e, w')
            | (Inr v, w') \<Rightarrow>
                (Inr v, w'\<lparr>cache := (cache w')((key, secret, category, symbol, settle_coin) \<mapsto> (v, now))\<rparr>))"
  using assms by (auto simp add: fetch_open_positions_def stale_def Let_def split: option.splits)

lemma stored_sent:
  "sent (snd (case r of (Inl e, w') \<Rightarrow> (Inl e, w')
              | (Inr v, w') \<Rightarrow> (Inr v, w'\<lparr>cache := g v w'\<rparr>))) = sent (snd r)"
  by (auto split: prod.splits sum.splits)

lemma stored_fst:
  "fst (case r of (Inl e, w') \<Rightarrow> (Inl e, w')
         | (Inr v, w') \<Rightarrow> (Inr v, w'\<lparr>cache := g v w'\<rparr>)) = fst r"
  by (auto split: prod.splits sum.splits)

lemma stale_fresh_fetch:
  assumes "stale w now (key, secret, category, symbol, settle_coin)"
  shows "fresh_fetch E now (key, secret, category, symbol, settle_coin) w"
proof -
  let ?k = "(key, secret, category, symbol, settle_coin)"
  let ?r = "fetch_open_positions_wrapped E now key secret category symbol settle_coin
              (w\<lparr>cache := (cache w)(?k := None)\<rparr>)"
  have s: "sent (snd ?r) = sent w @ [positions_request E now key secret category symbol settle_coin]"
    by (simp add: fetch_open_positions_wrapped_sent)
  have f: "fst ?r = fst (fetch_open_positions_wrapped E now key secret category symbol settle_coin w)"
    by (rule fetch_open_positions_wrapped_fst_cache)
  note m = fetch_open_positions_miss [OF assms, of E]
  show ?thesis
    using s f by (simp add: fresh_fetch_def m stored_sent stored_fst)
qed

lemma empty_cache_stale: "cache w = Map.empty \<Longrightarrow> stale w now k"
  by (simp add: stale_def)

lemma fetch_open_positions_fetched:
  assumes "fetch_open_positions E t0 key secret category symbol settle_coin w = (Inr v, w1)"
      and "sent w1 \<noteq> sent w"
  shows "cache w1 (key, secret, category, symbol, settle_coin) = Some (v, t0)
         \<and> sent w1 = sent w @ [positions_request E t0 key secret category symbol settle_coin]
         \<and> (\<forall>k'. k' \<noteq> (key, secret, category, symbol, settle_coin) \<longrightarrow> cache w1 k' = cache w k')"
proof -
  let ?k = "(key, secret, category, symbol, settle_coin)"
  have st: "stale w t0 ?k"
  proof (rule ccontr)
    assume "\<not> stale w t0 ?k"
    then obtain v' t where "cache w ?k = Some (v', t)" "t0 - t < TTL"
      by (auto simp add: stale_def split: option.splits)
    then have "fetch_open_positions E t0 key secret category symbol settle_coin w = (Inr v', w)"
      by (rule fetch_open_positions_hit)
    with assms show False by simp
  qed
  let ?r = "fetch_open_positions_wrapped E t0 key secret category symbol settle_coin
              (w\<lparr>cache := (cache w)(?k := None)\<rparr>)"
  have s: "sent (snd ?r) = sent w @ [positions_request E t0 key secret category symbol settle_coin]"
    by (simp add: fetch_open_positions_wrapped_sent)
  have c: "cache (snd ?r) = (cache w)(?k := None)"
    by (simp add: fetch_open_positions_wrapped_cache)
  show ?thesis
  proof (cases ?r)
    case (Pair a w')
    then show ?thesis
      using s c assms(1) fetch_open_positions_miss [OF st, of E]
      by (cases a) auto
  qed
qed

lemma example_first_get:
  "fetch_open_positions example_exchange 0 ''k'' ''s'' ''linear'' ''BTCUSDT'' ''USDT'' initial_world
   = (Inr [[(''symbol'', PStr ''BTCUSDT''), (''side'', PStr ''Buy''), (''autoAddMargin'', PStr ''0'')]],
      first_get_world)"
  by (simp add: first_get_world_def example_exchange_def
        fetch_open_positions_def fetch_open_positions_wrapped_def Let_def
        exchange_answering_def initial_world_def ok_envelope_def one_position_def rows_of_def
        positions_of_response_def raise_for_status_def response_json_def check_retCode_def)

lemma example_first_get_sent: "sent first_get_world \<noteq> sent initial_world"
  by (simp add: first_get_world_def initial_world_def fetch_open_positions_def Let_def
        fetch_open_positions_wrapped_sent stored_sent)

lemma example_first_get_cached:
  "cache first_get_world (''k'', ''s'', ''linear'', ''BTCUSDT'', ''USDT'') =
     Some ([[(''symbol'', PStr ''BTCUSDT''), (''side'', PStr ''Buy''), (''autoAddMargin'', PStr ''0'')]], 0)"
  using fetch_open_positions_fetched [OF example_first_get example_first_get_sent] by simp

text \<open>
  C4. The time to live is \<^verbatim>\<open>REFRESH_INTERVAL/1000 - 1\<close>, which is 9 seconds for the
  interval of 10000 ms. After a read that fetched and succeeded at time \<open>t0\<close> (one request
  sent), a read for the same key at a time \<open>t1\<close> with \<open>t1 - t0 < TTL\<close> returns the same
  data and sends nothing, and a read with \<open>TTL \<le> t1 - t0\<close> sends exactly one new request.
\<close>

theorem fetch_open_positions_ttl:
  assumes "fetch_open_positions E t0 key secret category symbol settle_coin w = (Inr v, w1)"
      and "sent w1 \<noteq> sent w"
  shows "TTL = real_of_int REFRESH_INTERVAL / 1000 - 1 \<and> REFRESH_INTERVAL = 10000 \<and> TTL = 9
         \<and> sent w1 = sent w @ [positions_request E t0 key secret category symbol settle_coin]
         \<and> (t1 - t0 < TTL \<longrightarrow>
              fetch_open_positions E t1 key secret category symbol settle_coin w1 = (Inr v, w1))
         \<and> (TTL \<le> t1 - t0 \<longrightarrow>
              sent (snd (fetch_open_positions E t1 key secret category symbol settle_coin w1)) =
                sent w1 @ [positions_request E t1 key secret category symbol settle_coin])"
proof -
  note st = fetch_open_positions_fetched [OF assms]
  have hit: "fetch_open_positions E t1 key secret category symbol settle_coin w1 = (Inr v, w1)"
    if "t1 - t0 < TTL"
    using st that by (simp add: fetch_open_positions_hit)
  have miss: "sent (snd (fetch_open_positions E t1 key secret category symbol settle_coin w1)) =
                sent w1 @ [positions_request E t1 key secret category symbol settle_coin]"
    if "TTL \<le> t1 - t0"
  proof -
    have "stale w1 t1 (key, secret, category, symbol, settle_coin)"
      using st that by (simp add: stale_def)
    then have "fresh_fetch E t1 (key, secret, category, symbol, settle_coin) w1"
      by (rule stale_fresh_fetch)
    then show ?thesis by (simp add: fresh_fetch_def)
  qed
  show ?thesis
    using st hit miss by (simp add: TTL_def REFRESH_INTERVAL_def)
qed

theorem fetch_open_positions_ttl_witness:
  "fetch_open_positions example_exchange 5 ''k'' ''s'' ''linear'' ''BTCUSDT'' ''USDT'' first_get_world =
     (Inr [[(''symbol'', PStr ''BTCUSDT''), (''side'', PStr ''Buy''), (''autoAddMargin'', PStr ''0'')]],
      first_get_world)
   \<and> length (sent first_get_world) = 1
   \<and> length (sent (snd (fetch_open_positions example_exchange 9 ''k'' ''s'' ''linear'' ''BTCUSDT''
                            ''USDT'' first_get_world))) = 2"
proof -
  note ttl = fetch_open_positions_ttl [OF example_first_get example_first_get_sent]
  note facts = ttl [THEN conjunct2, THEN conjunct2, THEN conjunct2]
  show ?thesis
    using facts [of 5] facts [of 9] by (simp add: initial_world_def TTL_value)
qed

text \<open>
  C2, as stated, fails: two reads with the same credentials, category and symbol, within
  the time to live, that differ in the unused settle coin only, build the same query
  parameters, and yet the second one sends a second request.
\<close>

theorem fetch_open_positions_key_counterexample:
  "(1::real) - 0 < TTL
   \<and> params (positions_request example_exchange 1 ''k'' ''s'' ''linear'' ''BTCUSDT'' ''USDC'') =
     params (positions_request example_exchange 0 ''k'' ''s'' ''linear'' ''BTCUSDT'' ''USDT'')
   \<and> fst (fetch_open_positions example_exchange 0 ''k'' ''s'' ''linear'' ''BTCUSDT'' ''USDT''
            initial_world) =
       Inr [[(''symbol'', PStr ''BTCUSDT''), (''side'', PStr ''Buy''), (''autoAddMargin'', PStr ''0'')]]
   \<and> length (sent first_get_world) = 1
   \<and> length (sent (snd (fetch_open_positions example_exchange 1 ''k'' ''s'' ''linear'' ''BTCUSDT''
                            ''USDC'' first_get_world))) = 2"
proof -
  note st = fetch_open_positions_fetched [OF example_first_get example_first_get_sent]
  have "cache first_get_world (''k'', ''s'', ''linear'', ''BTCUSDT'', ''USDC'') = None"
    using st by (simp add: initial_world_def)
  then have "stale first_get_world 1 (''k'', ''s'', ''linear'', ''BTCUSDT'', ''USDC'')"
    by (simp add: stale_def)
  then have "fresh_fetch example_exchange 1 (''k'', ''s'', ''linear'', ''BTCUSDT'', ''USDC'')
               first_get_world"
    by (rule stale_fresh_fetch)
  then have two: "length (sent (snd (fetch_open_positions example_exchange 1 ''k'' ''s'' ''linear''
                     ''BTCUSDT'' ''USDC'' first_get_world))) = 2"
    using st by (simp add: fresh_fetch_def initial_world_def)
  have same: "params (positions_request example_exchange 1 ''k'' ''s'' ''linear'' ''BTCUSDT'' ''USDC'') =
     params (positions_request example_exchange 0 ''k'' ''s'' ''linear'' ''BTCUSDT'' ''USDT'')"
    by (simp add: positions_request_def Let_def)
  have first: "fst (fetch_open_positions example_exchange 0 ''k'' ''s'' ''linear'' ''BTCUSDT''
                      ''USDT'' initial_world) =
       Inr [[(''symbol'', PStr ''BTCUSDT''), (''side'', PStr ''Buy''), (''autoAddMargin'', PStr ''0'')]]"
    by (simp add: example_first_get)
  have one: "length (sent first_get_world) = 1"
    using st by (simp add: initial_world_def)
  show ?thesis
    using two same first one by (simp add: TTL_value)
qed

text \<open>
  C2, amended. The cache finds an entry by the five arguments of the call as they are
  passed. After a read that fetched and succeeded, a read within the time to live with
  the same five arguments returns the cached data and sends nothing; a read that differs
  in any argument, the unused settle coin included, and had no entry, performs a fresh
  fetch.
\<close>

theorem fetch_open_positions_key:
  assumes "fetch_open_positions E t0 key secret category symbol settle_coin w = (Inr v, w1)"
      and "sent w1 \<noteq> sent w" and "t1 - t0 < TTL"
  shows "fetch_open_positions E t1 key secret category symbol settle_coin w1 = (Inr v, w1)
         \<and> ((key', secret', category', symbol', settle_coin') \<noteq>
              (key, secret, category, symbol, settle_coin)
            \<and> cache w (key', secret', category', symbol', settle_coin') = None \<longrightarrow>
              fresh_fetch E t1 (key', secret', category', symbol', settle_coin') w1)"
proof -
  note st = fetch_open_positions_fetched [OF assms(1,2)]
  have hit: "fetch_open_positions E t1 key secret category symbol settle_coin w1 = (Inr v, w1)"
    using st assms(3) by (simp add: fetch_open_positions_hit)
  have other: "fresh_fetch E t1 (key', secret', category', symbol', settle_coin') w1"
    if "(key', secret', category', symbol', settle_coin') \<noteq>
          (key, secret, category, symbol, settle_coin)"
      and "cache w (key', secret', category', symbol', settle_coin') = None"
  proof -
    have "cache w1 (key', secret', category', symbol', settle_coin') = None"
      using st that by simp
    then have "stale w1 t1 (key', secret', category', symbol', settle_coin')"
      by (simp add: stale_def)
    then show ?thesis by (rule stale_fresh_fetch)
  qed
  show ?thesis using hit other by blast
qed

theorem fetch_open_positions_key_witness:
  "fetch_open_positions example_exchange 1 ''k'' ''s'' ''linear'' ''BTCUSDT'' ''USDT'' first_get_world =
     (Inr [[(''symbol'', PStr ''BTCUSDT''), (''side'', PStr ''Buy''), (''autoAddMargin'', PStr ''0'')]],
      first_get_world)
   \<and> fresh_fetch example_exchange 1 (''k'', ''s'', ''linear'', ''BTCUSDT'', ''USDC'') first_get_world"
proof -
  have "(1::real) - 0 < TTL" by (simp add: TTL_value)
  from fetch_open_positions_key [OF example_first_get example_first_get_sent this,
      of "''k''" "''s''" "''linear''" "''BTCUSDT''" "''USDC''"]
  show ?thesis by (simp add: initial_world_def)
qed

section \<open>Properties of the webhook and of the row button\<close>

lemma read_fields_ok:
  assumes "map_of d ''symbol'' = Some (PStr s)" and "map_of d ''side'' = Some (PStr sd)"
      and "map_of d ''action'' = Some (PStr a)" and "map_of d ''category'' = Some c"
  shows "read_fields (PDict d) =
           Inr (upper s, capitalize sd, lower a, c,
                case map_of d ''settleCoin'' of None \<Rightarrow> PStr [] | Some v \<Rightarrow> v)"
  using assms by (simp add: read_fields_def split: option.split)

lemma webhook_validated:
  assumes "\<not> invalid_webhook_secret cfg req" and "body req = Some (PDict d)"
      and "map_of d ''symbol'' = Some (PStr s)" and "map_of d ''side'' = Some (PStr sd)"
      and "map_of d ''action'' = Some (PStr a)" and "map_of d ''category'' = Some c"
  shows "webhook E cfg now req w =
           (case set_auto_add_margin E now (API_KEY cfg) (API_SECRET cfg)
                   c (PStr (upper s)) (PStr (capitalize sd)) (lower a = ''enable'') w of
              (Inl e, w') \<Rightarrow> (HTTPException 500 (StrOf e), w')
            | (Inr res, w') \<Rightarrow>
                (Returned (PDict [(''status'', PStr ''ok''), (''result'', res)]),
                 fetch_open_positions_clear w'))"
  using assms(1,2) read_fields_ok [OF assms(3-6)]
  by (simp add: webhook_def)

lemma webhook_validated_fst:
  assumes "\<not> invalid_webhook_secret cfg req" and "body req = Some (PDict d)"
      and "map_of d ''symbol'' = Some (PStr s)" and "map_of d ''side'' = Some (PStr sd)"
      and "map_of d ''action'' = Some (PStr a)" and "map_of d ''category'' = Some c"
  shows "fst (webhook E cfg now req w) =
           (case fst (set_auto_add_margin E now (API_KEY cfg) (API_SECRET cfg)
                        c (PStr (upper s)) (PStr (capitalize sd)) (lower a = ''enable'') w) of
              Inl e \<Rightarrow> HTTPException 500 (StrOf e)
            | Inr res \<Rightarrow> Returned (PDict [(''status'', PStr ''ok''), (''result'', res)]))"
  unfolding webhook_validated [OF assms]
  by (auto split: prod.splits sum.splits)

lemma webhook_sent:
  assumes "\<not> invalid_webhook_secret cfg req" and "body req = Some (PDict d)"
      and "map_of d ''symbol'' = Some (PStr s)" and "map_of d ''side'' = Some (PStr sd)"
      and "map_of d ''action'' = Some (PStr a)" and "map_of d ''category'' = Some c"
  shows "sent (snd (webhook E cfg now req w)) =
           sent w @ [auto_margin_request E now (API_KEY cfg) (API_SECRET cfg)
                       c (PStr (upper s)) (PStr (capitalize sd)) (lower a = ''enable'')]"
  unfolding webhook_validated [OF assms]
  using set_auto_add_margin_sent [of E now "API_KEY cfg" "API_SECRET cfg" c "PStr (upper s)"
      "PStr (capitalize sd)" "lower a = ''enable''" w]
  by (auto simp add: fetch_open_positions_clear_def split: prod.splits sum.splits)

lemma webhook_unauthorized:
  assumes "invalid_webhook_secret cfg req"
  shows "webhook E cfg now req w = (HTTPException 401 (Detail ''Invalid webhook secret''), w)"
  using assms by (simp add: webhook_def)

lemma webhook_open_mode:
  assumes "WEBHOOK_SECRET cfg = None \<or> WEBHOOK_SECRET cfg = Some []"
  shows "\<not> invalid_webhook_secret cfg req"
  using assms by (auto simp add: invalid_webhook_secret_def)

lemma repr_str_field:
  "repr_str ''symbol'' = [CHR 0x27] @ ''symbol'' @ [CHR 0x27]"
  "repr_str ''side'' = [CHR 0x27] @ ''side'' @ [CHR 0x27]"
  "repr_str ''action'' = [CHR 0x27] @ ''action'' @ [CHR 0x27]"
  "repr_str ''category'' = [CHR 0x27] @ ''category'' @ [CHR 0x27]"
  by (simp_all add: repr_str_def repr_char_def Let_def)

lemma required_fields_cases:
  assumes "f \<in> set required_fields"
  obtains "f = ''symbol''" | "f = ''side''" | "f = ''action''" | "f = ''category''"
  using assms unfolding required_fields_def by auto

lemma str_KeyError_required:
  assumes "f \<in> set required_fields"
  shows "str_KeyError f = [CHR 0x27] @ f @ [CHR 0x27]"
  using assms by (rule required_fields_cases) (simp_all only: str_KeyError_def repr_str_field)

lemma read_fields_no_symbol:
  "map_of d ''symbol'' = None \<Longrightarrow> read_fields (PDict d) = Inl (KeyError ''symbol'')"
  by (simp add: read_fields_def)

lemma read_fields_no_side:
  "map_of d ''symbol'' = Some (PStr s) \<Longrightarrow> map_of d ''side'' = None \<Longrightarrow>
     read_fields (PDict d) = Inl (KeyError ''side'')"
  by (simp add: read_fields_def)

lemma read_fields_no_action:
  "map_of d ''symbol'' = Some (PStr s) \<Longrightarrow> map_of d ''side'' = Some (PStr sd) \<Longrightarrow>
     map_of d ''action'' = None \<Longrightarrow> read_fields (PDict d) = Inl (KeyError ''action'')"
  by (simp add: read_fields_def)

lemma read_fields_no_category:
  "map_of d ''symbol'' = Some (PStr s) \<Longrightarrow> map_of d ''side'' = Some (PStr sd) \<Longrightarrow>
     map_of d ''action'' = Some (PStr a) \<Longrightarrow> map_of d ''category'' = None \<Longrightarrow>
     read_fields (PDict d) = Inl (KeyError ''category'')"
  by (simp add: read_fields_def)

lemma read_fields_missing:
  assumes "f \<in> set required_fields" and "map_of d f = None"
      and "\<forall>g \<in> set (takeWhile (\<lambda>g. g \<noteq> f) required_fields). \<exists>s. map_of d g = Some (PStr s)"
  shows "read_fields (PDict d) = Inl (KeyError f)"
  using assms(1)
proof (rule required_fields_cases)
  assume "f = ''symbol''"
  then show ?thesis using assms(2) by (simp add: read_fields_no_symbol)
next
  assume f: "f = ''side''"
  then obtain s where "map_of d ''symbol'' = Some (PStr s)"
    using assms(3) by (auto simp add: required_fields_def)
  then show ?thesis using assms(2) f by (simp add: read_fields_no_side)
next
  assume f: "f = ''action''"
  then obtain s sd where "map_of d ''symbol'' = Some (PStr s)" "map_of d ''side'' = Some (PStr sd)"
    using assms(3) by (auto simp add: required_fields_def)
  then show ?thesis using assms(2) f by (simp add: read_fields_no_action)
next
  assume f: "f = ''category''"
  then obtain s sd a where "map_of d ''symbol'' = Some (PStr s)" "map_of d ''side'' = Some (PStr sd)"
     "map_of d ''action'' = Some (PStr a)"
    using assms(3) by (auto simp add: required_fields_def)
  then show ?thesis using assms(2) f by (simp add: read_fields_no_category)
qed

lemma webhook_returned_cache:
  assumes "fst (webhook E cfg now req w) = Returned res"
  shows "cache (snd (webhook E cfg now req w)) = Map.empty"
  using assms
  by (auto simp add: webhook_def fetch_open_positions_clear_def
        split: if_splits option.splits sum.splits prod.splits py_error.splits)

lemma row_button_rerun_cache:
  assumes "fst (row_button E now key secret category pos w) = Rerun"
  shows "cache (snd (row_button E now key secret category pos w)) = Map.empty"
  using assms
  by (auto simp add: row_button_def fetch_open_positions_clear_def Let_def
        split: if_splits option.splits sum.splits prod.splits)

lemma row_button_fst:
  assumes "map_of pos ''symbol'' = Some sy" and "map_of pos ''side'' = Some sd"
  shows "fst (row_button E now key secret category pos w) =
           (case fst (set_auto_add_margin E now key secret (PStr category) sy sd
                   (py_str (case map_of pos ''autoAddMargin'' of None \<Rightarrow> PStr ''0'' | Some v \<Rightarrow> v)
                      = ''0'') w) of
              Inl e \<Rightarrow> ShownError e
            | Inr res \<Rightarrow> Rerun)"
  using assms by (auto simp add: row_button_def Let_def split: prod.splits sum.splits)

lemma example_ack:
  "ack_of_response \<lparr>status_code = 200, json_body = Some (ok_envelope one_position)\<rparr> =
     Inr (ok_envelope one_position)"
  by (simp add: ack_of_response_def raise_for_status_def response_json_def check_retCode_def
        ok_envelope_def)

lemma example_margin_call:
  "fst (set_auto_add_margin example_exchange now key secret category symbol side enable w) =
     Inr (ok_envelope one_position)"
  using set_auto_add_margin_answer
    [of example_exchange "\<lparr>status_code = 200, json_body = Some (ok_envelope one_position)\<rparr>"]
  by (simp add: example_exchange_def exchange_answering_def example_ack)

lemma example_webhook_returned:
  "fst (webhook example_exchange (example_config None) 1
          \<lparr>authorization = None, body = Some enable_payload\<rparr> w) =
     Returned (PDict [(''status'', PStr ''ok''), (''result'', ok_envelope one_position)])"
proof -
  have open_mode: "\<not> invalid_webhook_secret (example_config None)
                      \<lparr>authorization = None, body = Some enable_payload\<rparr>"
    by (simp add: invalid_webhook_secret_def example_config_def)
  have "body \<lparr>authorization = None, body = Some enable_payload\<rparr> =
          Some (PDict [(''symbol'', PStr ''btcusdt''), (''side'', PStr ''buy''),
                       (''action'', PStr ''Enable''), (''category'', PStr ''linear'')])"
    by (simp add: enable_payload_def)
  from webhook_validated_fst [OF open_mode this, of "''btcusdt''" "''buy''" "''Enable''" "PStr ''linear''"]
  show ?thesis
    by (simp add: example_margin_call)
qed

lemma example_row_button_rerun:
  "fst (row_button example_exchange 1 ''k'' ''s'' ''linear'' position_row w) = Rerun"
  using row_button_fst [of position_row "PStr ''BTCUSDT''" "PStr ''Buy''" example_exchange 1
           "''k''" "''s''" "''linear''" w]
  by (simp add: position_row_def example_margin_call)

text \<open>
  C1. When the webhook handler returns its acknowledgment, and when the row button ends
  in a rerun (in both cases \<^verbatim>\<open>set_auto_add_margin\<close> raised nothing), the state the
  handler leaves has no cache entry, so the next read of the positions, for any key and at
  any time, performs a fresh fetch.
\<close>

theorem margin_toggle_invalidates:
  "(fst (webhook E cfg now req w) = Returned res \<longrightarrow>
      cache (snd (webhook E cfg now req w)) = Map.empty
      \<and> fresh_fetch E t (key', secret', category', symbol', settle_coin')
           (snd (webhook E cfg now req w)))
   \<and> (fst (row_button E now key secret category pos w) = Rerun \<longrightarrow>
      cache (snd (row_button E now key secret category pos w)) = Map.empty
      \<and> fresh_fetch E t (key', secret', category', symbol', settle_coin')
           (snd (row_button E now key secret category pos w)))"
  using webhook_returned_cache [of E cfg now req w res]
    row_button_rerun_cache [of E now key secret category pos w]
    empty_cache_stale stale_fresh_fetch
  by blast

theorem margin_toggle_invalidates_witness:
  "cache first_get_world (''k'', ''s'', ''linear'', ''BTCUSDT'', ''USDT'') \<noteq> None
   \<and> fst (webhook example_exchange (example_config None) 1
            \<lparr>authorization = None, body = Some enable_payload\<rparr> first_get_world) =
       Returned (PDict [(''status'', PStr ''ok''), (''result'', ok_envelope one_position)])
   \<and> fresh_fetch example_exchange 2 (''k'', ''s'', ''linear'', ''BTCUSDT'', ''USDT'')
       (snd (webhook example_exchange (example_config None) 1
               \<lparr>authorization = None, body = Some enable_payload\<rparr> first_get_world))
   \<and> fst (row_button example_exchange 1 ''k'' ''s'' ''linear'' position_row first_get_world) = Rerun
   \<and> cache (snd (row_button example_exchange 1 ''k'' ''s'' ''linear'' position_row first_get_world))
       = Map.empty
   \<and> fresh_fetch example_exchange 2 (''k'', ''s'', ''linear'', ''BTCUSDT'', ''USDT'')
       (snd (row_button example_exchange 1 ''k'' ''s'' ''linear'' position_row first_get_world))"
  using margin_toggle_invalidates
    [of example_exchange "example_config None" 1
        "\<lparr>authorization = None, body = Some enable_payload\<rparr>" first_get_world
        "PDict [(''status'', PStr ''ok''), (''result'', ok_envelope one_position)]"
        2 "''k''" "''s''" "''linear''" "''BTCUSDT''" "''USDT''" "''k''" "''s''" "''linear''"
        position_row]
    example_webhook_returned [of first_get_world] example_first_get_cached
    example_row_button_rerun [of first_get_world]
  by simp

text \<open>
  C6, at the input where it fails: with the secret \<open>abc\<close> and the header
  \<open>Bearer Bearer abc\<close> the bearer token is \<open>Bearer abc\<close>, which is not the secret; the
  handler removes every occurrence of \<open>Bearer \<close> from the header, finds the secret,
  sends the command to the exchange and acknowledges.
\<close>

theorem webhook_bearer_failing_input:
  "bearer_token \<lparr>authorization = Some ''Bearer Bearer abc'', body = Some enable_payload\<rparr> =
     Some ''Bearer abc''
   \<and> WEBHOOK_SECRET (example_config (Some ''abc'')) = Some ''abc''
   \<and> fst (webhook example_exchange (example_config (Some ''abc'')) 1
            \<lparr>authorization = Some ''Bearer Bearer abc'', body = Some enable_payload\<rparr>
            initial_world) =
       Returned (PDict [(''status'', PStr ''ok''), (''result'', ok_envelope one_position)])
   \<and> length (sent (snd (webhook example_exchange (example_config (Some ''abc'')) 1
            \<lparr>authorization = Some ''Bearer Bearer abc'', body = Some enable_payload\<rparr>
            initial_world))) = 1"
proof -
  let ?req = "\<lparr>authorization = Some ''Bearer Bearer abc'', body = Some enable_payload\<rparr>"
  let ?cfg = "example_config (Some ''abc'')"
  have pass: "\<not> invalid_webhook_secret ?cfg ?req"
    by (simp add: invalid_webhook_secret_def example_config_def replace_def)
  have b: "body ?req =
          Some (PDict [(''symbol'', PStr ''btcusdt''), (''side'', PStr ''buy''),
                       (''action'', PStr ''Enable''), (''category'', PStr ''linear'')])"
    by (simp add: enable_payload_def)
  have r: "fst (webhook example_exchange ?cfg 1 ?req initial_world) =
       Returned (PDict [(''status'', PStr ''ok''), (''result'', ok_envelope one_position)])"
    using webhook_validated_fst [OF pass b, of "''btcusdt''" "''buy''" "''Enable''" "PStr ''linear''"]
    by (simp add: example_margin_call)
  have s: "length (sent (snd (webhook example_exchange ?cfg 1 ?req initial_world))) = 1"
    unfolding webhook_validated [OF pass b, of "''btcusdt''" "''buy''" "''Enable''" "PStr ''linear''", simplified]
    using set_auto_add_margin_sent [of example_exchange 1 "API_KEY ?cfg" "API_SECRET ?cfg"
        "PStr ''linear''" "PStr (upper ''btcusdt'')" "PStr (capitalize ''buy'')"
        "lower ''Enable'' = ''enable''" initial_world]
    by (auto simp add: initial_world_def fetch_open_positions_clear_def split: prod.splits sum.splits)
  show ?thesis
    using r s by (simp add: bearer_token_def example_config_def)
qed

text \<open>
  C7, as stated, fails: for a body without \<open>symbol\<close> the detail is not the text
  \<open>Missing symbol\<close> (the name comes in single quotes), and a body whose \<open>symbol\<close> is a
  number, though \<open>side\<close>, \<open>action\<close> and \<open>category\<close> are missing, ends in an exception
  the handler does not catch.
\<close>

theorem webhook_missing_field_counterexample:
  "fst (webhook example_exchange (example_config None) 1
         \<lparr>authorization = None,
          body = Some (PDict [(''side'', PStr ''buy''), (''action'', PStr ''enable''),
                              (''category'', PStr ''linear'')])\<rparr>
         initial_world) \<noteq> HTTPException 400 (Detail ''Missing symbol'')
   \<and> fst (webhook example_exchange (example_config None) 1
         \<lparr>authorization = None, body = Some (PDict [(''symbol'', PInt 1)])\<rparr>
         initial_world) = Unhandled AttributeError"
  by (simp add: webhook_def invalid_webhook_secret_def example_config_def read_fields_def
        str_KeyError_def repr_str_def repr_char_def Let_def)

text \<open>
  C7, amended. For a request that passes the secret check and whose body is a JSON
  object: if a required field is missing and the required fields read before it are
  strings, the handler raises status 400 with the detail \<open>Missing\<close>, a blank and the name
  of that field in single quotes, and sends nothing to the exchange; if the four
  required fields are there (the first three strings) and only \<open>settleCoin\<close> is missing,
  the request is not answered with status 400.
\<close>

theorem webhook_missing_field:
  assumes "\<not> invalid_webhook_secret cfg req" and "body req = Some (PDict d)"
  shows "(f \<in> set required_fields \<and> map_of d f = None
          \<and> (\<forall>g \<in> set (takeWhile (\<lambda>g. g \<noteq> f) required_fields). \<exists>s. map_of d g = Some (PStr s))
          \<longrightarrow> webhook E cfg now req w =
                (HTTPException 400 (Detail (''Missing '' @ [CHR 0x27] @ f @ [CHR 0x27])), w))
       \<and> (map_of d ''symbol'' = Some (PStr s) \<and> map_of d ''side'' = Some (PStr sd)
          \<and> map_of d ''action'' = Some (PStr a) \<and> map_of d ''category'' = Some c
          \<and> map_of d ''settleCoin'' = None
          \<longrightarrow> (\<forall>dt. fst (webhook E cfg now req w) \<noteq> HTTPException 400 dt))"
proof -
  have missing: "webhook E cfg now req w =
                (HTTPException 400 (Detail (''Missing '' @ [CHR 0x27] @ f @ [CHR 0x27])), w)"
    if "f \<in> set required_fields" and "map_of d f = None"
      and "\<forall>g \<in> set (takeWhile (\<lambda>g. g \<noteq> f) required_fields). \<exists>s. map_of d g = Some (PStr s)"
    using assms read_fields_missing [OF that] str_KeyError_required [OF that(1)]
    by (simp add: webhook_def)
  have present: "fst (webhook E cfg now req w) \<noteq> HTTPException 400 dt"
    if "map_of d ''symbol'' = Some (PStr s)" and "map_of d ''side'' = Some (PStr sd)"
      and "map_of d ''action'' = Some (PStr a)" and "map_of d ''category'' = Some c" for dt
    unfolding webhook_validated_fst [OF assms that] by (auto split: sum.splits)
  show ?thesis using missing present by blast
qed

theorem webhook_missing_field_witness:
  "webhook example_exchange (example_config None) 1
     \<lparr>authorization = None,
      body = Some (PDict [(''symbol'', PStr ''btcusdt''), (''side'', PStr ''buy''),
                          (''category'', PStr ''linear'')])\<rparr>
     initial_world =
   (HTTPException 400 (Detail (''Missing '' @ [CHR 0x27] @ ''action'' @ [CHR 0x27])), initial_world)
   \<and> fst (webhook example_exchange (example_config None) 1
           \<lparr>authorization = None, body = Some enable_payload\<rparr> initial_world) \<noteq>
       HTTPException 400 (Detail (''Missing '' @ [CHR 0x27] @ ''settleCoin'' @ [CHR 0x27]))"
proof -
  have open_mode: "\<not> invalid_webhook_secret (example_config None) r" for r
    by (simp add: invalid_webhook_secret_def example_config_def)
  have a: "webhook example_exchange (example_config None) 1
     \<lparr>authorization = None,
      body = Some (PDict [(''symbol'', PStr ''btcusdt''), (''side'', PStr ''buy''),
                          (''category'', PStr ''linear'')])\<rparr>
     initial_world =
   (HTTPException 400 (Detail (''Missing '' @ [CHR 0x27] @ ''action'' @ [CHR 0x27])), initial_world)"
    using webhook_missing_field [OF open_mode,
        where d = "[(''symbol'', PStr ''btcusdt''), (''side'', PStr ''buy''),
                          (''category'', PStr ''linear'')]"
          and f = "''action''" and E = example_exchange and now = 1 and w = initial_world,
        THEN conjunct1]
    by (simp add: required_fields_def)
  have b: "fst (webhook example_exchange (example_config None) 1
           \<lparr>authorization = None, body = Some enable_payload\<rparr> initial_world) \<noteq>
       HTTPException 400 (Detail (''Missing '' @ [CHR 0x27] @ ''settleCoin'' @ [CHR 0x27]))"
    using webhook_missing_field [OF open_mode,
        where req = "\<lparr>authorization = None, body = Some enable_payload\<rparr>"
          and d = "[(''symbol'', PStr ''btcusdt''), (''side'', PStr ''buy''),
                    (''action'', PStr ''Enable''), (''category'', PStr ''linear'')]"
          and s = "''btcusdt''" and sd = "''buy''" and a = "''Enable''" and c = "PStr ''linear''"
          and E = example_exchange and now = 1 and w = initial_world,
        THEN conjunct2]
    by (simp add: enable_payload_def)
  show ?thesis using a b by blast
qed



lemma length_case_tables: "length ascii_lowercase = length ascii_uppercase"
  by (simp add: ascii_lowercase_def ascii_uppercase_def)

lemma distinct_lowercase: "distinct ascii_lowercase"
  by (simp add: ascii_lowercase_def)

lemma distinct_uppercase: "distinct ascii_uppercase"
  by (simp add: ascii_uppercase_def)

lemma lowercase_codes: "c \<in> set ascii_lowercase \<Longrightarrow> 97 \<le> (of_char c :: nat)"
  by (auto simp add: ascii_lowercase_def)

lemma uppercase_codes: "c \<in> set ascii_uppercase \<Longrightarrow> (of_char c :: nat) \<le> 90"
  by (auto simp add: ascii_uppercase_def)

lemma case_tables_disjoint: "c \<in> set ascii_lowercase \<Longrightarrow> c \<notin> set ascii_uppercase"
  using lowercase_codes [of c] uppercase_codes [of c] by fastforce

lemma upper_char_other: "c \<notin> set ascii_lowercase \<Longrightarrow> upper_char c = c"
  by (simp add: upper_char_def map_of_zip_is_None [OF length_case_tables, THEN iffD2])

lemma lower_char_other: "c \<notin> set ascii_uppercase \<Longrightarrow> lower_char c = c"
  by (simp add: lower_char_def map_of_zip_is_None [OF length_case_tables [symmetric], THEN iffD2])

lemma upper_char_letter:
  assumes "c \<in> set ascii_lowercase"
  shows "upper_char c \<in> set ascii_uppercase \<and> lower_char (upper_char c) = c"
proof -
  obtain i where i: "i < length ascii_lowercase" "c = ascii_lowercase ! i"
    using assms by (auto simp add: in_set_conv_nth)
  have j: "i < length ascii_uppercase" using i(1) by (simp add: length_case_tables)
  have u: "upper_char c = ascii_uppercase ! i"
    using map_of_zip_nth [OF length_case_tables distinct_lowercase j] i(2)
    by (simp add: upper_char_def)
  have l: "lower_char (ascii_uppercase ! i) = c"
    using map_of_zip_nth [OF length_case_tables [symmetric] distinct_uppercase i(1)] i(2)
    by (simp add: lower_char_def)
  show ?thesis using u l j by simp
qed

lemma lower_char_letter:
  assumes "c \<in> set ascii_uppercase"
  shows "lower_char c \<in> set ascii_lowercase \<and> upper_char (lower_char c) = c"
proof -
  obtain i where i: "i < length ascii_uppercase" "c = ascii_uppercase ! i"
    using assms by (auto simp add: in_set_conv_nth)
  have j: "i < length ascii_lowercase" using i(1) by (simp add: length_case_tables)
  have u: "lower_char c = ascii_lowercase ! i"
    using map_of_zip_nth [OF length_case_tables [symmetric] distinct_uppercase j] i(2)
    by (simp add: lower_char_def)
  have l: "upper_char (ascii_lowercase ! i) = c"
    using map_of_zip_nth [OF length_case_tables distinct_lowercase i(1)] i(2)
    by (simp add: upper_char_def)
  show ?thesis using u l j by simp
qed

lemma upper_char_not_lowercase: "upper_char c \<notin> set ascii_lowercase"
proof (cases "c \<in> set ascii_lowercase")
  case True
  then have "upper_char c \<in> set ascii_uppercase" using upper_char_letter by blast
  then show ?thesis using case_tables_disjoint by blast
next
  case False
  then show ?thesis by (simp add: upper_char_other)
qed

lemma lower_char_not_uppercase: "lower_char c \<notin> set ascii_uppercase"
proof (cases "c \<in> set ascii_uppercase")
  case True
  then have "lower_char c \<in> set ascii_lowercase" using lower_char_letter by blast
  then show ?thesis using case_tables_disjoint by blast
next
  case False
  then show ?thesis by (simp add: lower_char_other)
qed

lemma lower_upper_char: "lower_char (upper_char c) = lower_char c"
proof (cases "c \<in> set ascii_lowercase")
  case True
  then have "c \<notin> set ascii_uppercase" by (rule case_tables_disjoint)
  then show ?thesis using True upper_char_letter by (simp add: lower_char_other)
next
  case False
  then show ?thesis by (simp add: upper_char_other)
qed

lemma lower_lower_char: "lower_char (lower_char c) = lower_char c"
  using lower_char_not_uppercase [of c] by (simp add: lower_char_other)

lemma upper_no_lowercase: "set (upper s) \<inter> set ascii_lowercase = {}"
  using upper_char_not_lowercase by (auto simp add: upper_def)

lemma lower_upper: "lower (upper s) = lower s"
  by (simp add: upper_def lower_def lower_upper_char)

lemma lower_capitalize: "lower (capitalize s) = lower s"
  by (cases s) (simp_all add: capitalize_def lower_def lower_upper_char lower_lower_char)

lemma capitalize_shape:
  "capitalize s = [] \<longleftrightarrow> s = []"
  "s \<noteq> [] \<Longrightarrow> hd (capitalize s) \<notin> set ascii_lowercase"
  "set (tl (capitalize s)) \<inter> set ascii_uppercase = {}"
  using upper_char_not_lowercase lower_char_not_uppercase
  by (cases s; auto simp add: capitalize_def)+

text \<open>
  C10. For a request that passes the checks and whose symbol and side are ASCII strings,
  the command sent to the exchange carries the symbol in upper case and the side
  capitalized: the symbol sent is the given one up to case and has no lower-case letter;
  the side sent is the given one up to case, its first character is no lower-case letter
  and the rest has no upper-case letter. Two such payloads whose symbols and sides differ
  in case only end the same way.
\<close>

theorem webhook_symbol_side:
  assumes "\<not> invalid_webhook_secret cfg req1" and "body req1 = Some (PDict d1)"
      and "map_of d1 ''symbol'' = Some (PStr s1)" and "map_of d1 ''side'' = Some (PStr sd1)"
      and "map_of d1 ''action'' = Some (PStr a)" and "map_of d1 ''category'' = Some c"
      and "\<not> invalid_webhook_secret cfg req2" and "body req2 = Some (PDict d2)"
      and "map_of d2 ''symbol'' = Some (PStr s2)" and "map_of d2 ''side'' = Some (PStr sd2)"
      and "map_of d2 ''action'' = Some (PStr a)" and "map_of d2 ''category'' = Some c"
      and "isascii s1" and "isascii sd1" and "isascii s2" and "isascii sd2"
      and "upper s1 = upper s2" and "capitalize sd1 = capitalize sd2"
  shows "sent (snd (webhook E cfg now req1 w)) =
           sent w @ [auto_margin_request E now (API_KEY cfg) (API_SECRET cfg)
                       c (PStr (upper s1)) (PStr (capitalize sd1)) (lower a = ''enable'')]
         \<and> webhook E cfg now req1 w = webhook E cfg now req2 w
         \<and> lower (upper s1) = lower s1
         \<and> set (upper s1) \<inter> set ascii_lowercase = {}
         \<and> lower (capitalize sd1) = lower sd1
         \<and> (sd1 \<noteq> [] \<longrightarrow> hd (capitalize sd1) \<notin> set ascii_lowercase)
         \<and> set (tl (capitalize sd1)) \<inter> set ascii_uppercase = {}"
proof -
  have same: "webhook E cfg now req1 w = webhook E cfg now req2 w"
    using webhook_validated [OF assms(1-6), of E now w] webhook_validated [OF assms(7-12), of E now w]
      assms(17,18)
    by simp
  show ?thesis
    using webhook_sent [OF assms(1-6), of E now w] same lower_upper [of s1]
      upper_no_lowercase [of s1] lower_capitalize [of sd1] capitalize_shape(2,3) [of sd1]
    by blast
qed

theorem webhook_symbol_side_witness:
  "isascii ''btcusdt'' \<and> isascii ''bUY'' \<and> isascii ''BTCUSDT'' \<and> isascii ''Buy''
   \<and> upper ''btcusdt'' = ''BTCUSDT'' \<and> capitalize ''bUY'' = ''Buy''
   \<and> webhook example_exchange (example_config None) 1
       \<lparr>authorization = None,
        body = Some (PDict [(''symbol'', PStr ''btcusdt''), (''side'', PStr ''bUY''),
                            (''action'', PStr ''enable''), (''category'', PStr ''linear'')])\<rparr>
       initial_world =
     webhook example_exchange (example_config None) 1
       \<lparr>authorization = None,
        body = Some (PDict [(''symbol'', PStr ''BTCUSDT''), (''side'', PStr ''Buy''),
                            (''action'', PStr ''enable''), (''category'', PStr ''linear'')])\<rparr>
       initial_world
   \<and> sent (snd (webhook example_exchange (example_config None) 1
       \<lparr>authorization = None,
        body = Some (PDict [(''symbol'', PStr ''btcusdt''), (''side'', PStr ''bUY''),
                            (''action'', PStr ''enable''), (''category'', PStr ''linear'')])\<rparr>
       initial_world)) =
     [auto_margin_request example_exchange 1 ''k'' ''s'' (PStr ''linear'') (PStr ''BTCUSDT'')
        (PStr ''Buy'') True]"
proof -
  have open_mode: "\<not> invalid_webhook_secret (example_config None) r" for r
    by (simp add: invalid_webhook_secret_def example_config_def)
  have asc: "isascii ''btcusdt''" "isascii ''bUY''" "isascii ''BTCUSDT''" "isascii ''Buy''"
    by (simp_all add: isascii_def)
  have up: "upper ''btcusdt'' = ''BTCUSDT''" "capitalize ''bUY'' = ''Buy''"
    "upper ''BTCUSDT'' = ''BTCUSDT''" "capitalize ''Buy'' = ''Buy''" "lower ''enable'' = ''enable''"
    by (simp_all add: upper_def lower_def capitalize_def upper_char_def lower_char_def
          ascii_lowercase_def ascii_uppercase_def)
  note t = webhook_symbol_side [OF open_mode _ _ _ _ _ open_mode _ _ _ _ _ asc,
        where ?req1.0 = "\<lparr>authorization = None,
        body = Some (PDict [(''symbol'', PStr ''btcusdt''), (''side'', PStr ''bUY''),
                            (''action'', PStr ''enable''), (''category'', PStr ''linear'')])\<rparr>"
          and ?d1.0 = "[(''symbol'', PStr ''btcusdt''), (''side'', PStr ''bUY''),
                            (''action'', PStr ''enable''), (''category'', PStr ''linear'')]"
          and a = "''enable''" and c = "PStr ''linear''"
          and ?req2.0 = "\<lparr>authorization = None,
        body = Some (PDict [(''symbol'', PStr ''BTCUSDT''), (''side'', PStr ''Buy''),
                            (''action'', PStr ''enable''), (''category'', PStr ''linear'')])\<rparr>"
          and ?d2.0 = "[(''symbol'', PStr ''BTCUSDT''), (''side'', PStr ''Buy''),
                            (''action'', PStr ''enable''), (''category'', PStr ''linear'')]"
          and E = example_exchange and now = 1 and w = initial_world]
  have eq: "webhook example_exchange (example_config None) 1
       \<lparr>authorization = None,
        body = Some (PDict [(''symbol'', PStr ''btcusdt''), (''side'', PStr ''bUY''),
                            (''action'', PStr ''enable''), (''category'', PStr ''linear'')])\<rparr>
       initial_world =
     webhook example_exchange (example_config None) 1
       \<lparr>authorization = None,
        body = Some (PDict [(''symbol'', PStr ''BTCUSDT''), (''side'', PStr ''Buy''),
                            (''action'', PStr ''enable''), (''category'', PStr ''linear'')])\<rparr>
       initial_world"
    using t [THEN conjunct2, THEN conjunct1] by (simp add: up)
  have st: "sent (snd (webhook example_exchange (example_config None) 1
       \<lparr>authorization = None,
        body = Some (PDict [(''symbol'', PStr ''btcusdt''), (''side'', PStr ''bUY''),
                            (''action'', PStr ''enable''), (''category'', PStr ''linear'')])\<rparr>
       initial_world)) =
     [auto_margin_request example_exchange 1 ''k'' ''s'' (PStr ''linear'') (PStr ''BTCUSDT'')
        (PStr ''Buy'') True]"
    using t [THEN conjunct1] by (simp add: up initial_world_def example_config_def)
  show ?thesis
    using eq st asc up(1,2) by blast
qed

end
